theory Spec2Isabelle
  imports Complex_Main "HOL-Library.Sublist"
begin

text \<open>
  The two data pipelines of the repository: \<open>scripts/data_pipeline.py\<close>, which cleans,
  formats and imports customers, products and orders, and \<open>myapp/data_pipeline.py\<close>, which
  imports authors, books and reviews. A file is the table it holds, a failing call returns
  its error, and the store is passed in and returned.
\<close>

section \<open>Strings as Python handles them\<close>

text \<open>
  A Python \<open>str\<close> is modelled as a \<open>string\<close> of single-byte characters, so the functions
  below are Python's on ASCII text. A pandas cell is a \<open>string option\<close>: \<open>None\<close> is the
  missing value (NaN) for which \<open>pd.isna\<close> holds.
\<close>

definition is_space :: "char \<Rightarrow> bool" where
  "is_space c = (of_char c \<in> {9::nat, 10, 11, 12, 13, 28, 29, 30, 31, 32})"

text \<open>\<open>str.strip()\<close>: whitespace is removed at both ends.\<close>

definition strip :: "string \<Rightarrow> string" where
  "strip s = rev (dropWhile is_space (rev (dropWhile is_space s)))"

definition lower_char :: "char \<Rightarrow> char" where
  "lower_char c =
     (if 65 \<le> (of_char c :: nat) \<and> (of_char c :: nat) \<le> 90
      then char_of ((of_char c :: nat) + 32) else c)"

text \<open>\<open>str.lower()\<close>.\<close>

definition lower :: "string \<Rightarrow> string" where
  "lower s = map lower_char s"

text \<open>\<open>Series.astype(str)\<close> on a cell: the missing value prints as \<open>nan\<close>.\<close>

definition astype_str :: "string option \<Rightarrow> string" where
  "astype_str x = (case x of None \<Rightarrow> ''nan'' | Some s \<Rightarrow> s)"

definition is_digit :: "char \<Rightarrow> bool" where
  "is_digit c = (48 \<le> (of_char c :: nat) \<and> (of_char c :: nat) \<le> 57)"

definition digit_val :: "char \<Rightarrow> nat" where
  "digit_val c = of_char c - 48"

definition digit_char :: "nat \<Rightarrow> char" where
  "digit_char n = char_of (48 + n)"

section \<open>The normalizer of \<open>scripts/data_pipeline.py\<close>\<close>

definition clean_email :: "string option \<Rightarrow> string" where
  "clean_email x = (case x of None \<Rightarrow> '''' | Some s \<Rightarrow> lower (strip s))"

subsection \<open>\<open>datetime.strptime\<close> on the directives the pipeline uses\<close>

text \<open>
  \<open>strptime\<close> compiles the format into a regular expression, one group per directive:
  \<open>%Y\<close> is \<open>\d\d\d\d\<close>, \<open>%m\<close> is \<open>1[0-2]|0[1-9]|[1-9]\<close> and \<open>%d\<close> is
  \<open>3[0-1]|[1-2]\d|0[1-9]|[1-9]| [1-9]\<close>. A group yields its alternatives in the order the
  regular expression tries them, each with the rest of the input, so that the head of the
  list of full matches is the match the backtracking engine finds.
\<close>

datatype directive = DY | Dm | Dd | Lit char

definition re_Y :: "string \<Rightarrow> (nat \<times> string) list" where
  "re_Y s = (case s of
       a # b # c # d # rest \<Rightarrow>
         (if is_digit a \<and> is_digit b \<and> is_digit c \<and> is_digit d
          then [(1000 * digit_val a + 100 * digit_val b + 10 * digit_val c + digit_val d, rest)]
          else [])
     | _ \<Rightarrow> [])"

definition in_range :: "char \<Rightarrow> nat \<Rightarrow> nat \<Rightarrow> bool" where
  "in_range c lo hi = (is_digit c \<and> lo \<le> digit_val c \<and> digit_val c \<le> hi)"

text \<open>Two characters \<open>[lo1-hi1][lo2-hi2]\<close> read as a number.\<close>

definition two_chars :: "nat \<Rightarrow> nat \<Rightarrow> nat \<Rightarrow> nat \<Rightarrow> string \<Rightarrow> (nat \<times> string) list" where
  "two_chars lo1 hi1 lo2 hi2 s = (case s of
       a # b # rest \<Rightarrow>
         (if in_range a lo1 hi1 \<and> in_range b lo2 hi2
          then [(10 * digit_val a + digit_val b, rest)] else [])
     | _ \<Rightarrow> [])"

definition one_char :: "nat \<Rightarrow> nat \<Rightarrow> string \<Rightarrow> (nat \<times> string) list" where
  "one_char lo hi s = (case s of
       a # rest \<Rightarrow> (if in_range a lo hi then [(digit_val a, rest)] else [])
     | _ \<Rightarrow> [])"

text \<open>The last alternative of \<open>%d\<close>: a space and a digit, which \<open>int\<close> reads as the digit.\<close>

definition space_char :: "string \<Rightarrow> (nat \<times> string) list" where
  "space_char s = (case s of
       a # b # rest \<Rightarrow>
         (if a = CHR '' '' \<and> in_range b 1 9 then [(digit_val b, rest)] else [])
     | _ \<Rightarrow> [])"

definition re_m :: "string \<Rightarrow> (nat \<times> string) list" where
  "re_m s = two_chars 1 1 0 2 s @ two_chars 0 0 1 9 s @ one_char 1 9 s"

definition re_d :: "string \<Rightarrow> (nat \<times> string) list" where
  "re_d s = two_chars 3 3 0 1 s @ two_chars 1 2 0 9 s @ two_chars 0 0 1 9 s
            @ one_char 1 9 s @ space_char s"

record fields =
  fY :: "nat option"
  fm :: "nat option"
  fd :: "nat option"

definition no_fields :: fields where
  "no_fields = \<lparr>fY = None, fm = None, fd = None\<rparr>"

text \<open>All matches of a format against a prefix of the input, in the engine's order.\<close>

fun re_match :: "directive list \<Rightarrow> fields \<Rightarrow> string \<Rightarrow> (fields \<times> string) list" where
  "re_match [] g s = [(g, s)]"
| "re_match (DY # ds) g s =
     concat (map (\<lambda>(v, rest). re_match ds (g\<lparr>fY := Some v\<rparr>) rest) (re_Y s))"
| "re_match (Dm # ds) g s =
     concat (map (\<lambda>(v, rest). re_match ds (g\<lparr>fm := Some v\<rparr>) rest) (re_m s))"
| "re_match (Dd # ds) g s =
     concat (map (\<lambda>(v, rest). re_match ds (g\<lparr>fd := Some v\<rparr>) rest) (re_d s))"
| "re_match (Lit c # ds) g s =
     (case s of x # rest \<Rightarrow> (if x = c then re_match ds g rest else []) | [] \<Rightarrow> [])"

record date =
  year :: nat
  month :: nat
  day :: nat

definition is_leap :: "nat \<Rightarrow> bool" where
  "is_leap y = (y mod 4 = 0 \<and> (y mod 100 \<noteq> 0 \<or> y mod 400 = 0))"

definition days_in_month :: "nat \<Rightarrow> nat \<Rightarrow> nat" where
  "days_in_month y m =
     (if m = 2 then (if is_leap y then 29 else 28)
      else if m \<in> {4, 6, 9, 11} then 30 else 31)"

text \<open>The constructor \<open>datetime.date(y, m, d)\<close>; \<open>None\<close> is its \<open>ValueError\<close>.\<close>

definition make_date :: "nat \<Rightarrow> nat \<Rightarrow> nat \<Rightarrow> date option" where
  "make_date y m d =
     (if 1 \<le> y \<and> y \<le> 9999 \<and> 1 \<le> m \<and> m \<le> 12 \<and> 1 \<le> d \<and> d \<le> days_in_month y m
      then Some \<lparr>year = y, month = m, day = d\<rparr> else None)"

text \<open>
  \<open>datetime.strptime(s, fmt).date()\<close>; \<open>None\<close> is the \<open>ValueError\<close> raised when the
  input does not match, when unconverted data remains after the match, or when the
  numbers are no calendar date. A directive absent from the format takes
  \<open>strptime\<close>'s default (1900, 1, 1).
\<close>

definition strptime :: "string \<Rightarrow> directive list \<Rightarrow> date option" where
  "strptime s fmt =
     (case re_match fmt no_fields s of
        [] \<Rightarrow> None
      | (g, rest) # _ \<Rightarrow>
          (if rest \<noteq> [] then None
           else make_date (case fY g of None \<Rightarrow> 1900 | Some y \<Rightarrow> y)
                          (case fm g of None \<Rightarrow> 1 | Some m \<Rightarrow> m)
                          (case fd g of None \<Rightarrow> 1 | Some d \<Rightarrow> d)))"

definition pad2 :: "nat \<Rightarrow> string" where
  "pad2 n = [digit_char (n div 10 mod 10), digit_char (n mod 10)]"

definition pad4 :: "nat \<Rightarrow> string" where
  "pad4 n = [digit_char (n div 1000 mod 10), digit_char (n div 100 mod 10),
             digit_char (n div 10 mod 10), digit_char (n mod 10)]"

text \<open>\<open>date.isoformat()\<close>.\<close>

definition isoformat :: "date \<Rightarrow> string" where
  "isoformat d = pad4 (year d) @ ''-'' @ pad2 (month d) @ ''-'' @ pad2 (day d)"

definition fmt_Ymd_dash :: "directive list" where
  "fmt_Ymd_dash = [DY, Lit CHR ''-'', Dm, Lit CHR ''-'', Dd]"

definition fmt_Ymd_slash :: "directive list" where
  "fmt_Ymd_slash = [DY, Lit CHR ''/'', Dm, Lit CHR ''/'', Dd]"

definition fmt_dmY_dash :: "directive list" where
  "fmt_dmY_dash = [Dd, Lit CHR ''-'', Dm, Lit CHR ''-'', DY]"

definition fmt_dmY_slash :: "directive list" where
  "fmt_dmY_slash = [Dd, Lit CHR ''/'', Dm, Lit CHR ''/'', DY]"

definition date_formats :: "directive list list" where
  "date_formats = [fmt_Ymd_dash, fmt_Ymd_slash, fmt_dmY_dash, fmt_dmY_slash]"

text \<open>The loop of \<open>clean_date\<close> over the formats: the first one that parses returns.\<close>

fun try_formats :: "string \<Rightarrow> directive list list \<Rightarrow> string" where
  "try_formats s [] = ''''"
| "try_formats s (f # fs) =
     (case strptime s f of Some d \<Rightarrow> isoformat d | None \<Rightarrow> try_formats s fs)"

definition clean_date :: "string option \<Rightarrow> string" where
  "clean_date x = (case x of None \<Rightarrow> '''' | Some s \<Rightarrow> try_formats (strip s) date_formats)"

subsection \<open>Field cleaners\<close>

text \<open>\<open>re.sub(r"\D+", "", s)\<close> on ASCII text keeps the digits.\<close>

definition clean_phone :: "string option \<Rightarrow> string" where
  "clean_phone x = (case x of
       None \<Rightarrow> ''''
     | Some v \<Rightarrow>
         (let s = strip v; digits = filter is_digit s
          in if length digits > 8 then drop (length digits - 8) digits else digits))"

definition clean_bool :: "string option \<Rightarrow> bool" where
  "clean_bool x = (case x of
       None \<Rightarrow> True
     | Some v \<Rightarrow>
         (if strip v = '''' then True
          else lower (strip v) \<in> set [''1'', ''true'', ''t'', ''yes'', ''y'']))"

text \<open>\<open>s.replace(old, "")\<close>: the occurrences of \<open>old\<close> are removed from left to right.\<close>

function remove_sub :: "string \<Rightarrow> string \<Rightarrow> string" where
  "remove_sub old [] = []"
| "remove_sub old (c # cs) =
     (if old \<noteq> [] \<and> prefix old (c # cs)
      then remove_sub old (drop (length old) (c # cs))
      else c # remove_sub old cs)"
  by pat_completeness auto
termination
  by (relation "measure (\<lambda>(old, s). length s)") auto

definition clean_price :: "string option \<Rightarrow> string" where
  "clean_price x = (case x of
       None \<Rightarrow> ''0''
     | Some v \<Rightarrow>
         (let s = strip v;
              s = remove_sub ''$'' (remove_sub ''HK$'' s);
              s = strip (remove_sub '','' s);
              s = filter (\<lambda>c. is_digit c \<or> c = CHR ''.'') s
          in if s = '''' then ''0'' else s))"

subsection \<open>The tables of the commerce family\<close>

record raw_customer =
  raw_full_name :: "string option"
  raw_email :: "string option"
  raw_phone :: "string option"

record customer =
  full_name :: string
  email :: string
  phone :: string

record raw_product =
  raw_sku :: "string option"
  raw_name :: "string option"
  raw_price :: "string option"
  raw_is_active :: "string option"

record cleaned_product =
  cp_sku :: string
  cp_name :: string
  cp_price :: string
  cp_is_active :: bool

record raw_order =
  raw_customer_email :: "string option"
  raw_product_sku :: "string option"
  raw_quantity :: "string option"
  raw_order_date :: "string option"
  raw_note :: "string option"

record cleaned_order =
  co_customer_email :: string
  co_product_sku :: string
  co_quantity :: int
  co_order_date :: string
  co_note :: string

subsection \<open>\<open>cmd_clean\<close>\<close>

text \<open>
  \<open>DataFrame.drop_duplicates(subset=key, keep="first")\<close>: a row is kept when no earlier
  row has its key. The keys seen so far are carried along, as the \<open>seen\<close> set of
  \<open>_clean_authors\<close> is.
\<close>

fun keep_first :: "('a \<Rightarrow> 'k) \<Rightarrow> 'k list \<Rightarrow> 'a list \<Rightarrow> 'a list" where
  "keep_first key seen [] = []"
| "keep_first key seen (x # xs) =
     (if key x \<in> set seen then keep_first key seen xs
      else x # keep_first key (key x # seen) xs)"

definition drop_duplicates :: "('a \<Rightarrow> 'k) \<Rightarrow> 'a list \<Rightarrow> 'a list" where
  "drop_duplicates key rows = keep_first key [] rows"

definition clean_customer_row :: "raw_customer \<Rightarrow> customer" where
  "clean_customer_row r =
     \<lparr>full_name = strip (astype_str (raw_full_name r)),
      email = clean_email (raw_email r),
      phone = clean_phone (raw_phone r)\<rparr>"

definition clean_customers :: "raw_customer list \<Rightarrow> customer list" where
  "clean_customers dfc =
     drop_duplicates email (filter (\<lambda>c. email c \<noteq> '''') (map clean_customer_row dfc))"

definition clean_product_row :: "raw_product \<Rightarrow> cleaned_product" where
  "clean_product_row r =
     \<lparr>cp_sku = strip (astype_str (raw_sku r)),
      cp_name = strip (astype_str (raw_name r)),
      cp_price = clean_price (raw_price r),
      cp_is_active = clean_bool (raw_is_active r)\<rparr>"

definition clean_products :: "raw_product list \<Rightarrow> cleaned_product list" where
  "clean_products dfp = drop_duplicates cp_sku (map clean_product_row dfp)"

text \<open>
  The quantity column: \<open>pd.to_numeric(q, errors="coerce").fillna(1).astype(int)\<close> on the
  stripped text. The numeric parser of pandas is a parameter \<open>to_numeric\<close>: it gives the
  integer a cell is read as (after \<open>astype(int)\<close>), and \<open>None\<close> where the text is coerced
  to NaN.
\<close>

definition clean_quantity :: "(string \<Rightarrow> int option) \<Rightarrow> string option \<Rightarrow> int" where
  "clean_quantity to_numeric q =
     (case to_numeric (strip (astype_str q)) of None \<Rightarrow> 1 | Some n \<Rightarrow> n)"

definition clean_order_row :: "(string \<Rightarrow> int option) \<Rightarrow> raw_order \<Rightarrow> cleaned_order" where
  "clean_order_row to_numeric r =
     \<lparr>co_customer_email = clean_email (raw_customer_email r),
      co_product_sku = strip (astype_str (raw_product_sku r)),
      co_quantity = clean_quantity to_numeric (raw_quantity r),
      co_order_date = clean_date (raw_order_date r),
      co_note = strip (astype_str (raw_note r))\<rparr>"

definition clean_orders :: "(string \<Rightarrow> int option) \<Rightarrow> raw_order list \<Rightarrow> cleaned_order list" where
  "clean_orders to_numeric dfo =
     filter (\<lambda>r. co_customer_email r \<noteq> '''' \<and> co_product_sku r \<noteq> '''' \<and> co_order_date r \<noteq> '''')
       (map (clean_order_row to_numeric) dfo)"

text \<open>
  The parser on integer literals, an optional sign and decimal digits, where pandas reads
  the integer written; used to run the cleaner on concrete rows.
\<close>

definition digits_val :: "string \<Rightarrow> int" where
  "digits_val s = foldl (\<lambda>a c. 10 * a + int (digit_val c)) 0 s"

definition to_numeric_literal :: "string \<Rightarrow> int option" where
  "to_numeric_literal s =
     (let (neg, body) =
            (case s of
               [] \<Rightarrow> (False, s)
             | c # r \<Rightarrow> if c = CHR ''-'' then (True, r)
                        else if c = CHR ''+'' then (False, r) else (False, s))
      in if body \<noteq> [] \<and> list_all is_digit body
         then Some (if neg then - digits_val body else digits_val body)
         else None)"

text \<open>
  The directories \<open>raw/\<close> and \<open>cleaned/\<close>: a file is the table it holds, \<open>None\<close> when the
  file does not exist. \<open>pd.read_csv\<close> raises \<open>FileNotFoundError\<close> on a missing file, and the
  exception ends \<open>cmd_clean\<close> where it is raised; the files written before stay written.
\<close>

datatype error = FileNotFoundError | ValueError

record files =
  customers_raw :: "raw_customer list option"
  products_raw :: "raw_product list option"
  orders_raw :: "raw_order list option"
  customers_cleaned :: "customer list option"
  products_cleaned :: "cleaned_product list option"
  orders_cleaned :: "cleaned_order list option"

definition cmd_clean :: "(string \<Rightarrow> int option) \<Rightarrow> files \<Rightarrow> files \<times> error option" where
  "cmd_clean to_numeric fs =
     (case customers_raw fs of
        None \<Rightarrow> (fs, Some FileNotFoundError)
      | Some dfc \<Rightarrow>
          (let fs1 = fs\<lparr>customers_cleaned := Some (clean_customers dfc)\<rparr>
           in case products_raw fs1 of
                None \<Rightarrow> (fs1, Some FileNotFoundError)
              | Some dfp \<Rightarrow>
                  (let fs2 = fs1\<lparr>products_cleaned := Some (clean_products dfp)\<rparr>
                   in case orders_raw fs2 of
                        None \<Rightarrow> (fs2, Some FileNotFoundError)
                      | Some dfo \<Rightarrow>
                          (fs2\<lparr>orders_cleaned := Some (clean_orders to_numeric dfo)\<rparr>, None))))"

subsection \<open>\<open>cmd_format\<close>: canonical prices\<close>

text \<open>
  \<open>Decimal(x)\<close> on the texts \<open>clean_price\<close> produces, digits with dots: a plain literal with
  at most one dot and at least one digit is read as a coefficient and the number of its
  fractional digits; anything else over this alphabet is an \<open>InvalidOperation\<close>, here
  \<open>None\<close>.
\<close>

definition Decimal :: "string \<Rightarrow> (int \<times> nat) option" where
  "Decimal x =
     (let ip = takeWhile is_digit x; rest = dropWhile is_digit x
      in case rest of
           [] \<Rightarrow> (if ip = [] then None else Some (digits_val ip, 0))
         | c # fp \<Rightarrow>
             (if c = CHR ''.'' \<and> list_all is_digit fp \<and> (ip \<noteq> [] \<or> fp \<noteq> [])
              then Some (digits_val (ip @ fp), length fp) else None))"

text \<open>
  \<open>d.quantize(Decimal("0.01"))\<close> in the default context: rounding is
  \<open>ROUND_HALF_EVEN\<close> and the precision is 28 digits. The result is the number of
  hundredths; \<open>None\<close> is the \<open>InvalidOperation\<close> raised when the quantized coefficient has
  more than 28 digits.
\<close>

definition quantize :: "int \<times> nat \<Rightarrow> int option" where
  "quantize d =
     (let c = fst d; k = snd d;
          n = (if k \<le> 2 then c * 10 ^ (2 - k)
               else (let p = 10 ^ (k - 2); q = c div p; r = c mod p
                     in if 2 * r > p \<or> (2 * r = p \<and> odd q) then q + 1 else q))
      in if n < 10 ^ 28 then Some n else None)"

text \<open>The decimal digits of a non-negative integer.\<close>

function str_digits :: "int \<Rightarrow> string" where
  "str_digits n =
     (if n < 10 then [digit_char (nat n)]
      else str_digits (n div 10) @ [digit_char (nat (n mod 10))])"
  by pat_completeness auto
termination
  by (relation "measure nat") auto

text \<open>\<open>str\<close> of a decimal with two fractional digits, given in hundredths.\<close>

definition str_hundredths :: "int \<Rightarrow> string" where
  "str_hundredths n = str_digits (n div 100) @ ''.'' @ pad2 (nat (n mod 100))"

definition to_decimal_str :: "string \<Rightarrow> string" where
  "to_decimal_str x =
     (case Decimal x of
        None \<Rightarrow> ''0.00''
      | Some d \<Rightarrow> (case quantize d of None \<Rightarrow> ''0.00'' | Some n \<Rightarrow> str_hundredths n))"


definition format_products :: "cleaned_product list \<Rightarrow> cleaned_product list" where
  "format_products dfp =
     map (\<lambda>p. \<lparr>cp_sku = cp_sku p, cp_name = cp_name p,
               cp_price = to_decimal_str (cp_price p), cp_is_active = cp_is_active p\<rparr>) dfp"

section \<open>The loader of \<open>scripts/data_pipeline.py\<close>\<close>

text \<open>
  Modelled from the spec: the models \<open>Customer\<close>, \<open>Product\<close> and \<open>Order\<close> of \<open>pages.models\<close>,
  which \<open>cmd_import\<close> imports and whose file is not among the sources. The spec gives a
  customer a unique email, a product a unique SKU, and an order one customer, one product,
  a quantity, a date and a note; \<open>core/models.py\<close> declares models of these names with
  these fields, \<open>email\<close> and \<open>sku\<close> unique.

  The store holds one table per model, in insertion order. The generated \<open>id\<close> and
  \<open>created_at\<close> of a row are left out, and the column \<open>note\<close> of an order is the field
  \<open>order_note\<close>. As the email and the SKU are unique, the foreign keys of an order are
  given by the email and the SKU they point to, which is also how the loader reads them
  back (\<open>customer__email\<close>, \<open>product__sku\<close>). The engine's own rejections of a row
  (length, sign, null) are not modelled.
\<close>

record product =
  sku :: string
  name :: string
  price :: rat
  is_active :: bool

record order_row =
  customer_email :: string
  product_sku :: string
  quantity :: int
  order_date :: date
  order_note :: string

record store =
  customers :: "customer list"
  products :: "product list"
  orders :: "order_row list"

text \<open>
  The formatted files as \<open>pd.read_csv\<close> hands them to the loader: the price and the
  quantity are numbers, a note may be missing.
\<close>

record formatted_order =
  fo_customer_email :: string
  fo_product_sku :: string
  fo_quantity :: int
  fo_order_date :: string
  fo_note :: "string option"

record batch =
  customers_formatted :: "customer list"
  products_formatted :: "product list"
  orders_formatted :: "formatted_order list"

text \<open>
  \<open>bulk_create(objs, ignore_conflicts=True)\<close>: the rows are inserted in order, and a row
  whose unique key is already in the table, from before or from this very call, is
  skipped.
\<close>

fun bulk_create_ignore_conflicts :: "('a \<Rightarrow> 'k) \<Rightarrow> 'a list \<Rightarrow> 'a list \<Rightarrow> 'a list" where
  "bulk_create_ignore_conflicts key table [] = table"
| "bulk_create_ignore_conflicts key table (x # xs) =
     bulk_create_ignore_conflicts key
       (if key x \<in> key ` set table then table else table @ [x]) xs"

definition bulk_create :: "'a list \<Rightarrow> 'a list \<Rightarrow> 'a list" where
  "bulk_create table objs = table @ objs"

definition import_customers :: "customer list \<Rightarrow> customer list \<Rightarrow> customer list" where
  "import_customers table dfc =
     (let customers = map (\<lambda>r. \<lparr>full_name = full_name r, email = email r, phone = phone r\<rparr>) dfc;
          existing_emails = filter (\<lambda>e. e \<in> set (map email dfc)) (map email table);
          to_create = filter (\<lambda>c. email c \<notin> set existing_emails) customers
      in bulk_create_ignore_conflicts email table to_create)"

definition import_products :: "product list \<Rightarrow> product list \<Rightarrow> product list" where
  "import_products table dfp =
     (let existing_skus = filter (\<lambda>s. s \<in> set (map sku dfp)) (map sku table);
          prods = map (\<lambda>r. \<lparr>sku = strip (sku r), name = strip (name r),
                            price = price r, is_active = is_active r\<rparr>)
                    (filter (\<lambda>r. strip (sku r) \<notin> set existing_skus) dfp)
      in bulk_create_ignore_conflicts sku table prods)"

text \<open>A dictionary comprehension over rows: a later row with the same key replaces an earlier one.\<close>

definition dict_of :: "('a \<Rightarrow> 'k) \<Rightarrow> 'a list \<Rightarrow> ('k \<rightharpoonup> 'a)" where
  "dict_of key rows = map_of (rev (map (\<lambda>r. (key r, r)) rows))"

text \<open>
  The loop that builds the \<open>Order\<close> objects. A row whose customer or product is not in
  the maps is skipped by \<open>continue\<close>; \<open>strptime\<close> on the date of a row that is not skipped
  may raise \<open>ValueError\<close>, which ends the import.
\<close>

fun build_orders ::
  "(string \<rightharpoonup> customer) \<Rightarrow> (string \<rightharpoonup> product) \<Rightarrow> formatted_order list \<Rightarrow> error + order_row list" where
  "build_orders cust_map prod_map [] = Inr []"
| "build_orders cust_map prod_map (r # rs) =
     (case (cust_map (fo_customer_email r), prod_map (fo_product_sku r)) of
        (Some c, Some p) \<Rightarrow>
          (case strptime (fo_order_date r) fmt_Ymd_dash of
             None \<Rightarrow> Inl ValueError
           | Some d \<Rightarrow>
               (case build_orders cust_map prod_map rs of
                  Inl e \<Rightarrow> Inl e
                | Inr rest \<Rightarrow>
                    Inr (\<lparr>customer_email = email c, product_sku = sku p,
                          quantity = fo_quantity r, order_date = d,
                          order_note = strip (astype_str (fo_note r))\<rparr> # rest)))
      | _ \<Rightarrow> build_orders cust_map prod_map rs)"

text \<open>
  \<open>cmd_import\<close>. Each \<open>bulk_create\<close> is committed when it returns, so the store is
  returned also when the order loop raises: it then holds the customers and the products
  of the batch and no new order.
\<close>

definition cmd_import :: "store \<Rightarrow> batch \<Rightarrow> store \<times> error option" where
  "cmd_import db b =
     (let db1 = db\<lparr>customers := import_customers (customers db) (customers_formatted b)\<rparr>;
          db2 = db1\<lparr>products := import_products (products db1) (products_formatted b)\<rparr>;
          dfo = drop_duplicates (\<lambda>r. r) (orders_formatted b);
          cust_map = dict_of email
            (filter (\<lambda>c. email c \<in> set (map fo_customer_email dfo)) (customers db2));
          prod_map = dict_of sku
            (filter (\<lambda>p. sku p \<in> set (map fo_product_sku dfo)) (products db2))
      in case build_orders cust_map prod_map dfo of
           Inl e \<Rightarrow> (db2, Some e)
         | Inr new_orders \<Rightarrow>
             (let existing = set (orders db2);
                  filtered = filter (\<lambda>r. r \<notin> existing) new_orders
              in (db2\<lparr>orders := bulk_create (orders db2) filtered\<rparr>, None)))"


section \<open>The catalog pipeline of \<open>myapp/data_pipeline.py\<close>\<close>

subsection \<open>The JSON input and the models\<close>

text \<open>
  A JSON object is a record of the keys the pipeline reads; a key that is absent or
  \<open>null\<close> is \<open>None\<close>. Users, posts and comments carry the numeric \<open>id\<close> that becomes the
  identity of the row (an object without \<open>id\<close>, for which the engine would generate one, is
  outside the model), and numbers are integers.
\<close>

record company =
  company_title :: "string option"
  company_name :: "string option"

record user =
  u_id :: int
  u_firstName :: "string option"
  u_lastName :: "string option"
  u_username :: "string option"
  u_company :: "company option"
  u_university :: "string option"

record reactions =
  likes :: "int option"
  dislikes :: "int option"

record post =
  p_id :: int
  p_userId :: "int option"
  p_title :: "string option"
  p_reactions :: "reactions option"
  p_views :: "int option"

record comment =
  c_id :: int
  c_postId :: "int option"
  c_likes :: "int option"
  c_body :: "string option"

text \<open>
  The rows of \<open>myapp/models.py\<close>. A price is a decimal with two fractional digits, given
  in hundredths. \<open>b_author_id\<close> is the \<open>author_id\<close> the cleaner passes to \<open>Book\<close>, which is
  \<open>None\<close> when the cleaner has no author to give.
\<close>

record author =
  a_id :: int
  a_name :: string
  a_bio :: string

record book =
  b_id :: int
  b_title :: string
  b_author_id :: "int option"
  b_price :: int

record review =
  r_id :: int
  r_book_id :: int
  r_content :: string
  r_rating :: int

record catalog =
  authors :: "author list"
  books :: "book list"
  reviews :: "review list"

record json_files =
  user_json :: "user list option"
  posts_json :: "post list option"
  comments_json :: "comment list option"

subsection \<open>Text helpers\<close>

definition norm_text :: "string option \<Rightarrow> string \<Rightarrow> string" where
  "norm_text v fallback =
     (case v of None \<Rightarrow> fallback | Some s \<Rightarrow> if s = '''' then fallback else strip s)"

text \<open>\<open>sep.join(parts)\<close>.\<close>

fun join :: "string \<Rightarrow> string list \<Rightarrow> string" where
  "join sep [] = ''''"
| "join sep [p] = p"
| "join sep (p # q # ps) = p @ sep @ join sep (q # ps)"

text \<open>\<open>str\<close> of an integer.\<close>

definition show_int :: "int \<Rightarrow> string" where
  "show_int i = (if i < 0 then CHR ''-'' # str_digits (- i) else str_digits i)"

text \<open>\<open>a or b\<close> on strings: the first one that is not empty.\<close>

definition or_else :: "string \<Rightarrow> string \<Rightarrow> string" where
  "or_else a b = (if a \<noteq> '''' then a else b)"

subsection \<open>Double precision arithmetic\<close>

text \<open>
  A Python \<open>float\<close> is an IEEE 754 double, and a finite double is a rational number.
  \<open>fl q\<close> is the double nearest to the rational \<open>q\<close>: the mantissa has 53 bits, a tie goes
  to the even mantissa, and below \<open>2 ^ -1022\<close> the exponent stays at \<open>-1074\<close>. True division
  of integers and the sum and difference of doubles are correctly rounded, so each is
  \<open>fl\<close> of the exact result. Results beyond the largest double, where the division raises
  \<open>OverflowError\<close>, are not modelled.
\<close>

text \<open>\<open>int.bit_length\<close> on a positive integer.\<close>

function bit_length :: "int \<Rightarrow> nat" where
  "bit_length n = (if n \<le> 0 then 0 else Suc (bit_length (n div 2)))"
  by pat_completeness auto
termination
  by (relation "measure nat") auto

definition pow2 :: "int \<Rightarrow> rat" where
  "pow2 e = (if 0 \<le> e then 2 ^ nat e else 1 / 2 ^ nat (- e))"

text \<open>The integer part of the binary logarithm of a positive rational.\<close>

definition ilog2 :: "rat \<Rightarrow> int" where
  "ilog2 q =
     (let (a, b) = quotient_of q;
          d = int (bit_length a) - int (bit_length b)
      in if pow2 d \<le> q then d else d - 1)"

definition round_half_even :: "rat \<Rightarrow> int" where
  "round_half_even q =
     (let f = \<lfloor>q\<rfloor>; d = q - of_int f
      in if d < 1 / 2 then f else if 1 / 2 < d then f + 1 else if even f then f else f + 1)"

definition fl :: "rat \<Rightarrow> rat" where
  "fl q =
     (if q = 0 then 0
      else (let a = \<bar>q\<bar>;
                e = max (ilog2 a - 52) (- 1074);
                m = round_half_even (a / pow2 e)
            in sgn q * of_int m * pow2 e))"

definition int_truediv :: "int \<Rightarrow> int \<Rightarrow> rat" where
  "int_truediv a b = fl (of_int a / of_int b)"

definition float_add :: "rat \<Rightarrow> rat \<Rightarrow> rat" where
  "float_add x y = fl (x + y)"

definition float_sub :: "rat \<Rightarrow> rat \<Rightarrow> rat" where
  "float_sub x y = fl (x - y)"

text \<open>
  \<open>Decimal(x).quantize(Decimal("0.01"), rounding=ROUND_HALF_UP)\<close> on a double: the
  conversion to \<open>Decimal\<close> is exact, and a tie is rounded away from zero. The result is in
  hundredths. A result of more than 28 digits, where \<open>quantize\<close> raises
  \<open>InvalidOperation\<close>, is not modelled.
\<close>

definition quantize_half_up :: "rat \<Rightarrow> int" where
  "quantize_half_up x =
     (if 0 \<le> x then \<lfloor>100 * x + 1 / 2\<rfloor> else - \<lfloor>100 * (- x) + 1 / 2\<rfloor>)"

subsection \<open>The record cleaners\<close>

text \<open>\<open>d.get(key, 0) or 0\<close> on a number.\<close>

definition or_zero :: "int option \<Rightarrow> int" where
  "or_zero v = (case v of None \<Rightarrow> 0 | Some n \<Rightarrow> n)"

definition safe_price :: "post \<Rightarrow> int" where
  "safe_price post =
     (let reactions = (case p_reactions post of
                         None \<Rightarrow> \<lparr>likes = None, dislikes = None\<rparr> | Some r \<Rightarrow> r);
          likes = or_zero (likes reactions);
          dislikes = or_zero (dislikes reactions);
          views = or_zero (p_views post);
          raw = float_sub (float_add (int_truediv views 120) (int_truediv likes 15))
                          (int_truediv dislikes 25);
          price = max raw 5
      in quantize_half_up price)"

definition author_of_user :: "user \<Rightarrow> author" where
  "author_of_user user =
     (let user_id = u_id user;
          full_name = join '' '' (filter (\<lambda>part. part \<noteq> '''')
                        [norm_text (u_firstName user) '''', norm_text (u_lastName user) '''']);
          name = or_else (or_else full_name (norm_text (u_username user) ''''))
                         (''User '' @ show_int user_id);
          company = (case u_company user of
                       None \<Rightarrow> \<lparr>company_title = None, company_name = None\<rparr> | Some c \<Rightarrow> c);
          bio_bits = [norm_text (company_title company) '''',
                      norm_text (company_name company) '''',
                      norm_text (u_university user) ''''];
          bio = or_else (join '' | '' (filter (\<lambda>bit. bit \<noteq> '''') bio_bits)) ''No bio provided.''
      in \<lparr>a_id = user_id, a_name = take 100 name, a_bio = take 500 bio\<rparr>)"

text \<open>\<open>_clean_authors\<close>: a user whose id was seen before is skipped.\<close>

definition clean_authors :: "user list \<Rightarrow> author list" where
  "clean_authors users = map author_of_user (keep_first u_id [] users)"

text \<open>
  \<open>_clean_books\<close>. The set \<open>author_ids\<close> is given as the list of its elements in the order
  in which Python iterates it, so that \<open>next(iter(author_ids), None)\<close> is the head of the
  list, or \<open>None\<close> for the empty set.
\<close>

definition default_author_id :: "int list \<Rightarrow> int option" where
  "default_author_id author_ids = (case author_ids of [] \<Rightarrow> None | a # _ \<Rightarrow> Some a)"

definition clean_book :: "int list \<Rightarrow> post \<Rightarrow> book" where
  "clean_book author_ids post =
     (let book_id = p_id post;
          author_id = (case p_userId post of
                         None \<Rightarrow> default_author_id author_ids
                       | Some a \<Rightarrow> if a \<notin> set author_ids then default_author_id author_ids
                                  else Some a);
          title = take 200 (norm_text (p_title post) (''Untitled '' @ show_int book_id))
      in \<lparr>b_id = book_id, b_title = title, b_author_id = author_id, b_price = safe_price post\<rparr>)"

definition clean_books :: "post list \<Rightarrow> int list \<Rightarrow> book list" where
  "clean_books posts author_ids = map (clean_book author_ids) posts"

text \<open>\<open>_clean_reviews\<close>: a comment whose \<open>postId\<close> is not a book id is skipped.\<close>

fun clean_reviews :: "comment list \<Rightarrow> int list \<Rightarrow> review list" where
  "clean_reviews [] book_ids = []"
| "clean_reviews (comment # comments) book_ids =
     (case c_postId comment of
        None \<Rightarrow> clean_reviews comments book_ids
      | Some book_id \<Rightarrow>
          (if book_id \<notin> set book_ids then clean_reviews comments book_ids
           else (let likes = or_zero (c_likes comment);
                     rating = max 1 (min 5 (likes div 2 + 1));
                     content = norm_text (c_body comment) ''No content provided.''
                 in \<lparr>r_id = c_id comment, r_book_id = book_id, r_content = content,
                     r_rating = rating\<rparr> # clean_reviews comments book_ids)))"

subsection \<open>\<open>reset_tables\<close> and \<open>import_data\<close>\<close>

definition reset_tables :: "catalog \<Rightarrow> catalog" where
  "reset_tables db = db\<lparr>reviews := [], books := [], authors := []\<rparr>"

text \<open>
  \<open>import_data\<close> loads the three files before it touches the store, so a missing file
  leaves the store as it was. \<open>set_order xs\<close> lists the elements of \<open>set(xs)\<close> in the order in
  which Python iterates the set; it is a parameter.
\<close>

definition import_data :: "(int list \<Rightarrow> int list) \<Rightarrow> json_files \<Rightarrow> catalog \<Rightarrow> catalog \<times> error option" where
  "import_data set_order files db =
     (case user_json files of
        None \<Rightarrow> (db, Some FileNotFoundError)
      | Some users \<Rightarrow>
     (case posts_json files of
        None \<Rightarrow> (db, Some FileNotFoundError)
      | Some posts \<Rightarrow>
     (case comments_json files of
        None \<Rightarrow> (db, Some FileNotFoundError)
      | Some comments \<Rightarrow>
          (let db0 = reset_tables db;
               db1 = db0\<lparr>authors :=
                       bulk_create_ignore_conflicts a_id (authors db0) (clean_authors users)\<rparr>;
               author_ids = set_order (map a_id (authors db1));
               db2 = db1\<lparr>books :=
                       bulk_create_ignore_conflicts b_id (books db1) (clean_books posts author_ids)\<rparr>;
               book_ids = set_order (map b_id (books db2));
               db3 = db2\<lparr>reviews :=
                       bulk_create_ignore_conflicts r_id (reviews db2)
                         (clean_reviews comments book_ids)\<rparr>
           in (db3, None)))))"

section \<open>Properties of the cleaner\<close>

lemma try_formats_first:
  "i < length fs \<Longrightarrow> strptime s (fs ! i) = Some d \<Longrightarrow>
   (\<forall>j<i. strptime s (fs ! j) = None) \<Longrightarrow> try_formats s fs = isoformat d"
proof (induction fs arbitrary: i)
  case Nil
  then show ?case by simp
next
  case (Cons f fs)
  show ?case
  proof (cases i)
    case 0
    with Cons.prems show ?thesis by simp
  next
    case (Suc k)
    from Cons.prems(3) Suc have "strptime s f = None" by auto
    moreover from Cons.prems Suc have "try_formats s fs = isoformat d"
      by (intro Cons.IH [of k]) auto
    ultimately show ?thesis by simp
  qed
qed

lemma try_formats_none:
  "(\<forall>f\<in>set fs. strptime s f = None) \<Longrightarrow> try_formats s fs = ''''"
  by (induction fs) auto

lemma clean_orders_date_nonempty:
  "c \<in> set (clean_orders tn rows) \<Longrightarrow> co_order_date c \<noteq> ''''"
  by (auto simp: clean_orders_def)

lemma clean_date_31_12_2023: "clean_date (Some ''31-12-2023'') = ''2023-12-31''"
  by code_simp

lemma clean_date_not_a_date: "clean_date (Some ''not-a-date'') = ''''"
  by code_simp








lemma customer_eta: "\<lparr>full_name = full_name c, email = email c, phone = phone c\<rparr> = c"
  by (cases c) simp









text \<open>
  C7. \<open>clean_date\<close> tries the four formats Y-M-D, Y/M/D, D-M-Y and D/M/Y in this order
  on the stripped text: the result is the ISO form of the date parsed by the first format
  that parses, and it is empty when no format parses. An order whose cleaned date is empty
  is not among the cleaned orders; \<open>31-12-2023\<close> cleans to \<open>2023-12-31\<close>, and an order dated
  \<open>not-a-date\<close> is dropped.
\<close>

theorem clean_date_first_format_wins:
  "date_formats =
     [[DY, Lit CHR ''-'', Dm, Lit CHR ''-'', Dd], [DY, Lit CHR ''/'', Dm, Lit CHR ''/'', Dd],
      [Dd, Lit CHR ''-'', Dm, Lit CHR ''-'', DY], [Dd, Lit CHR ''/'', Dm, Lit CHR ''/'', DY]]
   \<and> (i < length date_formats \<and> strptime (strip s) (date_formats ! i) = Some d
        \<and> (\<forall>j<i. strptime (strip s) (date_formats ! j) = None)
      \<longrightarrow> clean_date (Some s) = isoformat d)
   \<and> ((\<forall>f\<in>set date_formats. strptime (strip s) f = None) \<longrightarrow> clean_date (Some s) = '''')
   \<and> (clean_date (raw_order_date r) = '''' \<longrightarrow>
        clean_order_row tn r \<notin> set (clean_orders tn rows))
   \<and> clean_date (Some ''31-12-2023'') = ''2023-12-31''
   \<and> clean_date (Some ''not-a-date'') = ''''
   \<and> clean_orders tn [r\<lparr>raw_order_date := Some ''not-a-date''\<rparr>] = []"
proof -
  have a: "date_formats =
     [[DY, Lit CHR ''-'', Dm, Lit CHR ''-'', Dd], [DY, Lit CHR ''/'', Dm, Lit CHR ''/'', Dd],
      [Dd, Lit CHR ''-'', Dm, Lit CHR ''-'', DY], [Dd, Lit CHR ''/'', Dm, Lit CHR ''/'', DY]]"
    by (simp add: date_formats_def fmt_Ymd_dash_def fmt_Ymd_slash_def fmt_dmY_dash_def
        fmt_dmY_slash_def)
  have b: "i < length date_formats \<and> strptime (strip s) (date_formats ! i) = Some d
        \<and> (\<forall>j<i. strptime (strip s) (date_formats ! j) = None)
      \<longrightarrow> clean_date (Some s) = isoformat d"
    using try_formats_first [of i date_formats "strip s" d] by (simp add: clean_date_def)
  have c: "(\<forall>f\<in>set date_formats. strptime (strip s) f = None) \<longrightarrow> clean_date (Some s) = ''''"
    using try_formats_none [of date_formats "strip s"] by (simp add: clean_date_def)
  have d: "clean_date (raw_order_date r) = '''' \<longrightarrow>
        clean_order_row tn r \<notin> set (clean_orders tn rows)"
  proof
    assume e: "clean_date (raw_order_date r) = ''''"
    show "clean_order_row tn r \<notin> set (clean_orders tn rows)"
    proof
      assume "clean_order_row tn r \<in> set (clean_orders tn rows)"
      then have "co_order_date (clean_order_row tn r) \<noteq> ''''"
        by (rule clean_orders_date_nonempty)
      with e show False by (simp add: clean_order_row_def)
    qed
  qed
  have f: "clean_orders tn [r\<lparr>raw_order_date := Some ''not-a-date''\<rparr>] = []"
    by (simp add: clean_orders_def clean_order_row_def clean_date_not_a_date)
  from a b c d f clean_date_31_12_2023 clean_date_not_a_date show ?thesis by blast
qed

theorem clean_date_first_format_wins_witness:
  "strptime (strip '' 05/03/2024 '') (date_formats ! 0) = None
   \<and> strptime (strip '' 05/03/2024 '') (date_formats ! 1) = None
   \<and> strptime (strip '' 05/03/2024 '') (date_formats ! 2) = None
   \<and> strptime (strip '' 05/03/2024 '') (date_formats ! 3) = Some \<lparr>year = 2024, month = 3, day = 5\<rparr>
   \<and> clean_date (Some '' 05/03/2024 '') = ''2024-03-05''
   \<and> clean_date (Some ''2024-02-30'') = ''''
   \<and> clean_order_row to_numeric_literal
         \<lparr>raw_customer_email = Some ''kit@example.com'', raw_product_sku = Some ''SKU-001'',
          raw_quantity = Some ''2'', raw_order_date = Some ''2024-02-30'', raw_note = None\<rparr>
       \<notin> set (clean_orders to_numeric_literal
         [\<lparr>raw_customer_email = Some ''kit@example.com'', raw_product_sku = Some ''SKU-001'',
           raw_quantity = Some ''2'', raw_order_date = Some ''2024-02-30'', raw_note = None\<rparr>])"
proof -
  let ?s = "'' 05/03/2024 ''"
  let ?d = "\<lparr>year = 2024, month = 3, day = 5\<rparr>"
  let ?r = "\<lparr>raw_customer_email = Some ''kit@example.com'', raw_product_sku = Some ''SKU-001'',
          raw_quantity = Some ''2'', raw_order_date = Some ''2024-02-30'', raw_note = None\<rparr>"
  have h0: "strptime (strip ?s) (date_formats ! 0) = None" by code_simp
  have h1: "strptime (strip ?s) (date_formats ! 1) = None" by code_simp
  have h2: "strptime (strip ?s) (date_formats ! 2) = None" by code_simp
  have h3: "strptime (strip ?s) (date_formats ! 3) = Some ?d" by code_simp
  have len: "(3::nat) < length date_formats" by (simp add: date_formats_def)
  have before: "\<forall>j<3. strptime (strip ?s) (date_formats ! j) = None"
  proof (intro allI impI)
    fix j :: nat
    assume "j < 3"
    then have "j = 0 \<or> j = 1 \<or> j = 2" by arith
    with h0 h1 h2 show "strptime (strip ?s) (date_formats ! j) = None" by auto
  qed
  have iso: "isoformat ?d = ''2024-03-05''" by code_simp
  have e: "clean_date (raw_order_date ?r) = ''''" by code_simp
  note t = clean_date_first_format_wins [where i = 3 and s = ?s and d = ?d and r = ?r
      and tn = to_numeric_literal and rows = "[?r]"]
  from t len h3 before iso have c1: "clean_date (Some ?s) = ''2024-03-05''" by simp
  from t e have c2: "clean_order_row to_numeric_literal ?r \<notin> set (clean_orders to_numeric_literal [?r])"
    by blast
  from e have c3: "clean_date (Some ''2024-02-30'') = ''''" by simp
  from h0 h1 h2 h3 c1 c2 c3 show ?thesis by blast
qed



text \<open>
  C3, as amended. \<open>cmd_clean\<close> reads and writes one entity kind after the other and stops
  with \<open>FileNotFoundError\<close> at the first missing raw file: nothing is written when the
  customers file is missing; the cleaned customers are written, and nothing else, when the
  products file is missing; the cleaned customers and products are written, and no orders,
  when the orders file is missing.
\<close>

theorem cmd_clean_missing_input:
  "(customers_raw fs = None \<longrightarrow> cmd_clean tn fs = (fs, Some FileNotFoundError))
   \<and> (customers_raw fs = Some dfc \<and> products_raw fs = None \<longrightarrow>
        cmd_clean tn fs
        = (fs\<lparr>customers_cleaned := Some (clean_customers dfc)\<rparr>, Some FileNotFoundError))
   \<and> (customers_raw fs = Some dfc \<and> products_raw fs = Some dfp \<and> orders_raw fs = None \<longrightarrow>
        cmd_clean tn fs
        = (fs\<lparr>customers_cleaned := Some (clean_customers dfc),
               products_cleaned := Some (clean_products dfp)\<rparr>, Some FileNotFoundError))
   \<and> (customers_raw fs = None \<or> products_raw fs = None \<or> orders_raw fs = None \<longrightarrow>
        snd (cmd_clean tn fs) = Some FileNotFoundError
        \<and> orders_cleaned (fst (cmd_clean tn fs)) = orders_cleaned fs)"
  by (auto simp: cmd_clean_def Let_def split: option.splits)

theorem cmd_clean_missing_input_witness:
  "cmd_clean to_numeric_literal
     \<lparr>customers_raw = Some [], products_raw = Some [], orders_raw = None,
      customers_cleaned = None, products_cleaned = None, orders_cleaned = None\<rparr>
   = (\<lparr>customers_raw = Some [], products_raw = Some [], orders_raw = None,
       customers_cleaned = Some [], products_cleaned = Some [], orders_cleaned = None\<rparr>,
      Some FileNotFoundError)"
  using cmd_clean_missing_input [where fs = "\<lparr>customers_raw = Some [], products_raw = Some [],
      orders_raw = None, customers_cleaned = None, products_cleaned = None,
      orders_cleaned = None\<rparr>" and dfc = "[]" and dfp = "[]" and tn = to_numeric_literal]
  by (simp add: clean_customers_def clean_products_def drop_duplicates_def)

theorem cmd_clean_partial_output_counterexample:
  "customers_cleaned (fst (cmd_clean to_numeric_literal
     \<lparr>customers_raw = Some [\<lparr>raw_full_name = Some ''Kit Wong'',
        raw_email = Some ''kit@example.com'', raw_phone = Some ''91234567''\<rparr>],
      products_raw = None, orders_raw = Some [],
      customers_cleaned = None, products_cleaned = None, orders_cleaned = None\<rparr>))
   = Some [\<lparr>full_name = ''Kit Wong'', email = ''kit@example.com'', phone = ''91234567''\<rparr>]
   \<and> snd (cmd_clean to_numeric_literal
     \<lparr>customers_raw = Some [\<lparr>raw_full_name = Some ''Kit Wong'',
        raw_email = Some ''kit@example.com'', raw_phone = Some ''91234567''\<rparr>],
      products_raw = None, orders_raw = Some [],
      customers_cleaned = None, products_cleaned = None, orders_cleaned = None\<rparr>)
   = Some FileNotFoundError"
  by code_simp




section \<open>Properties of the loaders\<close>

lemma bulk_create_ignore_conflicts_keys:
  "key ` set (bulk_create_ignore_conflicts key table xs) = key ` set table \<union> key ` set xs"
  by (induction xs arbitrary: table) auto

lemma bulk_create_ignore_conflicts_known:
  "key ` set xs \<subseteq> key ` set table \<Longrightarrow> bulk_create_ignore_conflicts key table xs = table"
  by (induction xs arbitrary: table) auto

lemma bulk_create_ignore_conflicts_prefix:
  "prefix table (bulk_create_ignore_conflicts key table xs)"
proof (induction xs arbitrary: table)
  case Nil
  then show ?case by simp
next
  case (Cons x xs)
  show ?case
  proof (cases "key x \<in> key ` set table")
    case True
    with Cons.IH [of table] show ?thesis by simp
  next
    case False
    have "prefix table (table @ [x])" by simp
    also have "prefix (table @ [x]) (bulk_create_ignore_conflicts key (table @ [x]) xs)"
      by (rule Cons.IH)
    finally show ?thesis using False by simp
  qed
qed

lemma import_customers_emails:
  "set (map email dfc) \<subseteq> email ` set (import_customers table dfc)"
  by (auto simp: import_customers_def Let_def bulk_create_ignore_conflicts_keys customer_eta
      image_iff)

lemma import_customers_idem:
  "import_customers (import_customers table dfc) dfc = import_customers table dfc"
proof -
  let ?t = "import_customers table dfc"
  have "filter (\<lambda>c. email c \<notin> set (filter (\<lambda>e. e \<in> set (map email dfc)) (map email ?t))) dfc = []"
    using import_customers_emails [of dfc table] by (auto simp: filter_empty_conv)
  then show ?thesis
    by (simp add: import_customers_def [of ?t] Let_def customer_eta)
qed

lemma import_customers_prefix: "prefix table (import_customers table dfc)"
  by (simp add: import_customers_def Let_def bulk_create_ignore_conflicts_prefix)

lemma import_products_skus:
  "(\<lambda>r. strip (sku r)) ` set dfp \<subseteq> sku ` set (import_products table dfp)"
  by (auto simp: import_products_def Let_def bulk_create_ignore_conflicts_keys image_iff)

lemma import_products_idem:
  "import_products (import_products table dfp) dfp = import_products table dfp"
proof -
  let ?t = "import_products table dfp"
  have sub: "\<exists>x\<in>set ?t. strip (sku r) = sku x" if "r \<in> set dfp" for r
    using import_products_skus [of dfp table] that by (auto simp: image_iff)
  show ?thesis
    unfolding import_products_def [of ?t] Let_def
    by (rule bulk_create_ignore_conflicts_known) (use sub in \<open>fastforce simp: image_iff\<close>)
qed

lemma import_products_prefix: "prefix table (import_products table dfp)"
  by (simp add: import_products_def Let_def bulk_create_ignore_conflicts_prefix)


text \<open>\<open>cmd_import\<close> with its steps named.\<close>

lemma cmd_import_steps:
  "cmd_import db b =
     (let cs = import_customers (customers db) (customers_formatted b);
          ps = import_products (products db) (products_formatted b);
          dfo = drop_duplicates (\<lambda>r. r) (orders_formatted b);
          cust_map = dict_of email (filter (\<lambda>c. email c \<in> set (map fo_customer_email dfo)) cs);
          prod_map = dict_of sku (filter (\<lambda>p. sku p \<in> set (map fo_product_sku dfo)) ps)
      in case build_orders cust_map prod_map dfo of
           Inl e \<Rightarrow> (\<lparr>customers = cs, products = ps, orders = orders db\<rparr>, Some e)
         | Inr new_orders \<Rightarrow>
             (\<lparr>customers = cs, products = ps,
               orders = orders db @ filter (\<lambda>r. r \<notin> set (orders db)) new_orders\<rparr>, None))"
  by (cases db) (simp add: cmd_import_def Let_def bulk_create_def split: sum.splits)

lemma cmd_import_idem: "cmd_import (fst (cmd_import db b)) b = cmd_import db b"
proof -
  let ?cs = "import_customers (customers db) (customers_formatted b)"
  let ?ps = "import_products (products db) (products_formatted b)"
  let ?dfo = "drop_duplicates (\<lambda>r. r) (orders_formatted b)"
  let ?cm = "dict_of email (filter (\<lambda>c. email c \<in> set (map fo_customer_email ?dfo)) ?cs)"
  let ?pm = "dict_of sku (filter (\<lambda>p. sku p \<in> set (map fo_product_sku ?dfo)) ?ps)"
  show ?thesis
  proof (cases "build_orders ?cm ?pm ?dfo")
    case (Inl e)
    then have 1: "cmd_import db b = (\<lparr>customers = ?cs, products = ?ps, orders = orders db\<rparr>, Some e)"
      by (simp add: cmd_import_steps Let_def)
    show ?thesis
      unfolding 1 using Inl by (simp add: cmd_import_steps Let_def import_customers_idem
          import_products_idem)
  next
    case (Inr new)
    let ?f = "filter (\<lambda>r. r \<notin> set (orders db)) new"
    from Inr have 1: "cmd_import db b
        = (\<lparr>customers = ?cs, products = ?ps, orders = orders db @ ?f\<rparr>, None)"
      by (simp add: cmd_import_steps Let_def)
    have 2: "filter (\<lambda>r. r \<notin> set (orders db @ ?f)) new = []"
      by (auto simp: filter_empty_conv)
    show ?thesis
      unfolding 1 using 2 Inr by (simp add: cmd_import_steps Let_def import_customers_idem
          import_products_idem)
  qed
qed

lemma cmd_import_preserves:
  "prefix (customers db) (customers (fst (cmd_import db b)))
   \<and> prefix (products db) (products (fst (cmd_import db b)))
   \<and> prefix (orders db) (orders (fst (cmd_import db b)))"
  by (simp add: cmd_import_steps Let_def import_customers_prefix import_products_prefix
      split: sum.splits)

lemma reset_tables_const: "reset_tables db = \<lparr>authors = [], books = [], reviews = []\<rparr>"
  by (cases db) (simp add: reset_tables_def)

lemma import_data_reset:
  "user_json files \<noteq> None \<Longrightarrow> posts_json files \<noteq> None \<Longrightarrow> comments_json files \<noteq> None \<Longrightarrow>
   import_data so files db = import_data so files \<lparr>authors = [], books = [], reviews = []\<rparr>"
  by (auto simp: import_data_def reset_tables_const)

lemma import_data_missing:
  "user_json files = None \<or> posts_json files = None \<or> comments_json files = None \<Longrightarrow>
   import_data so files db = (db, Some FileNotFoundError)"
  by (auto simp: import_data_def split: option.splits)

lemma import_data_idem:
  "import_data so files (fst (import_data so files db)) = import_data so files db"
proof (cases "user_json files = None \<or> posts_json files = None \<or> comments_json files = None")
  case True
  then show ?thesis by (simp add: import_data_missing)
next
  case False
  then show ?thesis
    using import_data_reset [of files so "fst (import_data so files db)"]
      import_data_reset [of files so db] by simp
qed









lemma clean_book_author_in_set:
  "author_ids \<noteq> [] \<Longrightarrow> \<exists>a\<in>set author_ids. b_author_id (clean_book author_ids post) = Some a"
  by (cases author_ids) (auto simp: clean_book_def Let_def default_author_id_def split: option.splits)

lemma clean_book_no_authors: "b_author_id (clean_book [] post) = None"
  by (simp add: clean_book_def Let_def default_author_id_def split: option.splits)

text \<open>
  C1. Importing the same batch a second time changes nothing: for the commerce family the
  second run of \<open>cmd_import\<close> returns the store of the first run, with no customer,
  product or order added, and the same outcome; for the catalog family the second run of
  \<open>import_data\<close> returns the store of the first run, with the same authors, books and
  reviews.
\<close>

theorem import_twice_same_store:
  "cmd_import (fst (cmd_import db b)) b = cmd_import db b
   \<and> import_data set_order files (fst (import_data set_order files cat))
       = import_data set_order files cat"
  by (simp add: cmd_import_idem import_data_idem)

theorem import_twice_same_store_witness:
  "cmd_import
     \<lparr>customers = [\<lparr>full_name = ''Kit Wong'', email = ''kit@example.com'', phone = ''91234567''\<rparr>,
                   \<lparr>full_name = ''Sam Lee'', email = ''sam@example.com'', phone = ''''\<rparr>],
      products = [\<lparr>sku = ''SKU-001'', name = ''NMN 32000'', price = 1299, is_active = True\<rparr>],
      orders = [\<lparr>customer_email = ''kit@example.com'', product_sku = ''SKU-001'', quantity = 2,
                 order_date = \<lparr>year = 2024, month = 1, day = 5\<rparr>, order_note = ''gift''\<rparr>]\<rparr>
     \<lparr>customers_formatted =
        [\<lparr>full_name = ''Sam Lee'', email = ''sam@example.com'', phone = ''''\<rparr>,
         \<lparr>full_name = ''Kit W'', email = ''kit@example.com'', phone = ''''\<rparr>],
      products_formatted =
        [\<lparr>sku = '' SKU-001'', name = ''NMN 32000 '', price = 1299, is_active = True\<rparr>],
      orders_formatted =
        [\<lparr>fo_customer_email = ''kit@example.com'', fo_product_sku = ''SKU-001'', fo_quantity = 2,
          fo_order_date = ''2024-01-05'', fo_note = Some ''gift ''\<rparr>,
         \<lparr>fo_customer_email = ''kit@example.com'', fo_product_sku = ''SKU-001'', fo_quantity = 2,
          fo_order_date = ''2024-01-05'', fo_note = Some ''gift ''\<rparr>,
         \<lparr>fo_customer_email = ''kit@example.com'', fo_product_sku = ''SKU-404'', fo_quantity = 1,
          fo_order_date = ''2024-01-06'', fo_note = None\<rparr>]\<rparr>
   = (\<lparr>customers = [\<lparr>full_name = ''Kit Wong'', email = ''kit@example.com'', phone = ''91234567''\<rparr>,
                     \<lparr>full_name = ''Sam Lee'', email = ''sam@example.com'', phone = ''''\<rparr>],
        products = [\<lparr>sku = ''SKU-001'', name = ''NMN 32000'', price = 1299, is_active = True\<rparr>],
        orders = [\<lparr>customer_email = ''kit@example.com'', product_sku = ''SKU-001'', quantity = 2,
                   order_date = \<lparr>year = 2024, month = 1, day = 5\<rparr>, order_note = ''gift''\<rparr>]\<rparr>,
      None)"
proof -
  let ?b = "\<lparr>customers_formatted =
        [\<lparr>full_name = ''Sam Lee'', email = ''sam@example.com'', phone = ''''\<rparr>,
         \<lparr>full_name = ''Kit W'', email = ''kit@example.com'', phone = ''''\<rparr>],
      products_formatted =
        [\<lparr>sku = '' SKU-001'', name = ''NMN 32000 '', price = 1299, is_active = True\<rparr>],
      orders_formatted =
        [\<lparr>fo_customer_email = ''kit@example.com'', fo_product_sku = ''SKU-001'', fo_quantity = 2,
          fo_order_date = ''2024-01-05'', fo_note = Some ''gift ''\<rparr>,
         \<lparr>fo_customer_email = ''kit@example.com'', fo_product_sku = ''SKU-001'', fo_quantity = 2,
          fo_order_date = ''2024-01-05'', fo_note = Some ''gift ''\<rparr>,
         \<lparr>fo_customer_email = ''kit@example.com'', fo_product_sku = ''SKU-404'', fo_quantity = 1,
          fo_order_date = ''2024-01-06'', fo_note = None\<rparr>]\<rparr>"
  let ?db = "\<lparr>customers = [\<lparr>full_name = ''Kit Wong'', email = ''kit@example.com'',
                              phone = ''91234567''\<rparr>],
             products = [], orders = []\<rparr>"
  let ?s = "\<lparr>customers = [\<lparr>full_name = ''Kit Wong'', email = ''kit@example.com'', phone = ''91234567''\<rparr>,
                     \<lparr>full_name = ''Sam Lee'', email = ''sam@example.com'', phone = ''''\<rparr>],
        products = [\<lparr>sku = ''SKU-001'', name = ''NMN 32000'', price = 1299, is_active = True\<rparr>],
        orders = [\<lparr>customer_email = ''kit@example.com'', product_sku = ''SKU-001'', quantity = 2,
                   order_date = \<lparr>year = 2024, month = 1, day = 5\<rparr>, order_note = ''gift''\<rparr>]\<rparr>"
  have first: "cmd_import ?db ?b = (?s, None)" by code_simp
  from import_twice_same_store [of ?db ?b]
  have "cmd_import (fst (cmd_import ?db ?b)) ?b = cmd_import ?db ?b" by (rule conjunct1)
  then show ?thesis unfolding first fst_conv .
qed

text \<open>
  C2, as amended. \<open>cmd_import\<close> never deletes or changes a row: the customers, products and
  orders of the store before the import are, in place and unchanged, the first rows of the
  tables after it. \<open>import_data\<close> leaves the store untouched when one of its input files is
  missing; otherwise it starts with \<open>reset_tables\<close>, which empties the three tables, so that
  the rows present before are deleted and the result is that of an import into the empty
  store.
\<close>

theorem import_keeps_rows_or_resets:
  "prefix (customers db) (customers (fst (cmd_import db b)))
   \<and> prefix (products db) (products (fst (cmd_import db b)))
   \<and> prefix (orders db) (orders (fst (cmd_import db b)))
   \<and> (user_json files = None \<or> posts_json files = None \<or> comments_json files = None \<longrightarrow>
        import_data set_order files cat = (cat, Some FileNotFoundError))
   \<and> (user_json files \<noteq> None \<and> posts_json files \<noteq> None \<and> comments_json files \<noteq> None \<longrightarrow>
        reset_tables cat = \<lparr>authors = [], books = [], reviews = []\<rparr>
        \<and> import_data set_order files cat = import_data set_order files (reset_tables cat))"
  using cmd_import_preserves [of db b] import_data_missing [of files set_order cat]
    import_data_reset [of files set_order cat]
  by (simp add: reset_tables_const)

theorem import_keeps_rows_or_resets_witness:
  "prefix [\<lparr>full_name = ''Kit Wong'', email = ''kit@example.com'', phone = ''91234567''\<rparr>]
     (customers (fst (cmd_import
        \<lparr>customers = [\<lparr>full_name = ''Kit Wong'', email = ''kit@example.com'', phone = ''91234567''\<rparr>],
         products = [], orders = []\<rparr>
        \<lparr>customers_formatted = [\<lparr>full_name = ''Kit W'', email = ''kit@example.com'', phone = ''''\<rparr>],
         products_formatted = [], orders_formatted = []\<rparr>)))
   \<and> import_data (\<lambda>xs. xs) \<lparr>user_json = Some [], posts_json = None, comments_json = Some []\<rparr>
        \<lparr>authors = [\<lparr>a_id = 99, a_name = ''Ann'', a_bio = ''Poet''\<rparr>], books = [], reviews = []\<rparr>
      = (\<lparr>authors = [\<lparr>a_id = 99, a_name = ''Ann'', a_bio = ''Poet''\<rparr>], books = [], reviews = []\<rparr>,
         Some FileNotFoundError)"
  using import_keeps_rows_or_resets [of
      "\<lparr>customers = [\<lparr>full_name = ''Kit Wong'', email = ''kit@example.com'', phone = ''91234567''\<rparr>],
        products = [], orders = []\<rparr>"
      "\<lparr>customers_formatted = [\<lparr>full_name = ''Kit W'', email = ''kit@example.com'', phone = ''''\<rparr>],
        products_formatted = [], orders_formatted = []\<rparr>"
      "\<lparr>user_json = Some [], posts_json = None, comments_json = Some []\<rparr>"
      "\<lambda>xs. xs"
      "\<lparr>authors = [\<lparr>a_id = 99, a_name = ''Ann'', a_bio = ''Poet''\<rparr>], books = [], reviews = []\<rparr>"]
  by simp

theorem import_data_deletes_rows_counterexample:
  "authors (fst (import_data (\<lambda>xs. xs)
     \<lparr>user_json = Some [\<lparr>u_id = 1, u_firstName = Some ''Emily'', u_lastName = Some ''Johnson'',
                         u_username = Some ''emilys'', u_company = None, u_university = None\<rparr>],
      posts_json = Some [], comments_json = Some []\<rparr>
     \<lparr>authors = [\<lparr>a_id = 99, a_name = ''Ann'', a_bio = ''Poet''\<rparr>], books = [], reviews = []\<rparr>))
   = [\<lparr>a_id = 1, a_name = ''Emily Johnson'', a_bio = ''No bio provided.''\<rparr>]"
  by code_simp



text \<open>
  C10. With no accepted author, \<open>next(iter(author_ids), None)\<close> is \<open>None\<close>, no \<open>userId\<close> is in
  the set, and the book cleaner gives every book the author reference \<open>None\<close>. When at least
  one author was accepted, every book gets the id of an accepted author.
\<close>

theorem clean_books_without_authors:
  "default_author_id [] = None
   \<and> b_author_id (clean_book [] post) = None
   \<and> (\<forall>bk\<in>set (clean_books posts []). b_author_id bk = None)
   \<and> (author_ids \<noteq> [] \<longrightarrow>
        (\<forall>bk\<in>set (clean_books posts author_ids). \<exists>a\<in>set author_ids. b_author_id bk = Some a))"
  using clean_book_author_in_set [of author_ids]
  by (auto simp: clean_books_def clean_book_no_authors default_author_id_def)

theorem clean_books_without_authors_witness:
  "map b_author_id (clean_books
     [\<lparr>p_id = 10, p_userId = Some 7, p_title = None, p_reactions = None, p_views = None\<rparr>,
      \<lparr>p_id = 11, p_userId = None, p_title = None, p_reactions = None, p_views = None\<rparr>] [])
   = [None, None]
   \<and> map b_author_id (clean_books
     [\<lparr>p_id = 10, p_userId = Some 7, p_title = None, p_reactions = None, p_views = None\<rparr>,
      \<lparr>p_id = 11, p_userId = None, p_title = None, p_reactions = None, p_views = None\<rparr>] [4])
   = [Some 4, Some 4]"
proof -
  let ?p = "\<lparr>p_id = 10, p_userId = Some 7, p_title = None, p_reactions = None, p_views = None\<rparr>"
  let ?q = "\<lparr>p_id = 11, p_userId = None, p_title = None, p_reactions = None, p_views = None\<rparr>"
  note t = clean_books_without_authors [where posts = "[?p, ?q]" and author_ids = "[4]"]
  from t have "\<forall>bk\<in>set (clean_books [?p, ?q] []). b_author_id bk = None" by blast
  then have a: "map b_author_id (clean_books [?p, ?q] []) = [None, None]"
    by (simp add: clean_books_def)
  from t have "\<forall>bk\<in>set (clean_books [?p, ?q] [4]). \<exists>a\<in>set [4]. b_author_id bk = Some a" by blast
  then have b: "map b_author_id (clean_books [?p, ?q] [4]) = [Some 4, Some 4]"
    by (simp add: clean_books_def)
  from a b show ?thesis by blast
qed

section \<open>Properties of the derived and formatted prices\<close>














end
